theory Spec2Isabelle
  imports Complex_Main
begin

section \<open>Emotion to voice settings: \<open>generate_elevenlabs_config\<close>\<close>

text \<open>
  The Python of \<open>docs/plans/roleplay-coaching-prd.md\<close> (Action 5). Python floats are
  modelled as \<open>real\<close>: the function only compares them with literals, multiplies by
  \<open>1.2\<close> or \<open>0.7\<close> and takes \<open>min\<close> with \<open>1.0\<close>.
\<close>

text \<open>
  Modelled from the spec: the enumeration \<open>PrimaryEmotion\<close> is imported from
  \<open>emotive_tts_processor\<close>, which is not among the sources. The seven members are the
  keys of \<open>emotion_presets\<close>; \<open>OTHER n\<close> stands for any further member that
  \<open>state.primary_emotion\<close> may hold, a value that equals none of the seven keys.
\<close>

datatype PrimaryEmotion =
  JOY | SADNESS | ANGER | FEAR | DISGUST | SURPRISE | NEUTRAL | OTHER nat

text \<open>
  Modelled from the spec: \<open>BodyState\<close> and \<open>EmotiveVoiceState\<close> are declared in the
  same missing module; the fields are those the function reads (\<open>energy\<close>, \<open>intensity\<close>,
  \<open>primary_emotion\<close>, \<open>body_state\<close>) and those the data model names.
\<close>

record BodyState =
  energy :: real
  tension :: real
  valence :: real
  arousal :: real

record EmotiveVoiceState =
  primary_emotion :: PrimaryEmotion
  intensity :: real
  body_state :: "BodyState option"

record voice_settings =
  stability :: real
  similarity_boost :: real
  style :: real
  use_speaker_boost :: bool

datatype py_error = KeyError

text \<open>The \<open>if\<close>/\<open>elif\<close>/\<open>else\<close> that sets the local \<open>intensity_level\<close>.\<close>

definition intensity_level :: "real \<Rightarrow> string" where
  "intensity_level i =
     (if i < 0.35 then ''low'' else if i < 0.7 then ''medium'' else ''high'')"

text \<open>The dictionary literal \<open>emotion_presets\<close>, entry by entry.\<close>

definition emotion_presets :: "PrimaryEmotion \<rightharpoonup> (string \<rightharpoonup> voice_settings)" where
  "emotion_presets =
    [JOY \<mapsto>
       [''low'' \<mapsto> \<lparr>stability = 0.5, similarity_boost = 0.75, style = 0.3, use_speaker_boost = False\<rparr>,
        ''medium'' \<mapsto> \<lparr>stability = 0.3, similarity_boost = 0.75, style = 0.6, use_speaker_boost = True\<rparr>,
        ''high'' \<mapsto> \<lparr>stability = 0.2, similarity_boost = 0.7, style = 0.8, use_speaker_boost = True\<rparr>],
     SADNESS \<mapsto>
       [''low'' \<mapsto> \<lparr>stability = 0.6, similarity_boost = 0.8, style = 0.2, use_speaker_boost = False\<rparr>,
        ''medium'' \<mapsto> \<lparr>stability = 0.7, similarity_boost = 0.8, style = 0.3, use_speaker_boost = False\<rparr>,
        ''high'' \<mapsto> \<lparr>stability = 0.8, similarity_boost = 0.85, style = 0.4, use_speaker_boost = False\<rparr>],
     ANGER \<mapsto>
       [''low'' \<mapsto> \<lparr>stability = 0.4, similarity_boost = 0.75, style = 0.5, use_speaker_boost = True\<rparr>,
        ''medium'' \<mapsto> \<lparr>stability = 0.2, similarity_boost = 0.7, style = 0.8, use_speaker_boost = True\<rparr>,
        ''high'' \<mapsto> \<lparr>stability = 0.1, similarity_boost = 0.65, style = 0.9, use_speaker_boost = True\<rparr>],
     FEAR \<mapsto>
       [''low'' \<mapsto> \<lparr>stability = 0.5, similarity_boost = 0.75, style = 0.4, use_speaker_boost = False\<rparr>,
        ''medium'' \<mapsto> \<lparr>stability = 0.4, similarity_boost = 0.75, style = 0.5, use_speaker_boost = True\<rparr>,
        ''high'' \<mapsto> \<lparr>stability = 0.3, similarity_boost = 0.7, style = 0.6, use_speaker_boost = True\<rparr>],
     DISGUST \<mapsto>
       [''low'' \<mapsto> \<lparr>stability = 0.6, similarity_boost = 0.8, style = 0.3, use_speaker_boost = False\<rparr>,
        ''medium'' \<mapsto> \<lparr>stability = 0.5, similarity_boost = 0.8, style = 0.4, use_speaker_boost = False\<rparr>,
        ''high'' \<mapsto> \<lparr>stability = 0.4, similarity_boost = 0.75, style = 0.5, use_speaker_boost = False\<rparr>],
     SURPRISE \<mapsto>
       [''low'' \<mapsto> \<lparr>stability = 0.4, similarity_boost = 0.75, style = 0.5, use_speaker_boost = True\<rparr>,
        ''medium'' \<mapsto> \<lparr>stability = 0.3, similarity_boost = 0.7, style = 0.7, use_speaker_boost = True\<rparr>,
        ''high'' \<mapsto> \<lparr>stability = 0.2, similarity_boost = 0.65, style = 0.8, use_speaker_boost = True\<rparr>],
     NEUTRAL \<mapsto>
       [''low'' \<mapsto> \<lparr>stability = 0.5, similarity_boost = 0.75, style = 0.0, use_speaker_boost = False\<rparr>,
        ''medium'' \<mapsto> \<lparr>stability = 0.5, similarity_boost = 0.75, style = 0.0, use_speaker_boost = False\<rparr>,
        ''high'' \<mapsto> \<lparr>stability = 0.5, similarity_boost = 0.75, style = 0.0, use_speaker_boost = False\<rparr>]]"

text \<open>
  Python's \<open>d[k]\<close> raises \<open>KeyError\<close> on a missing key; \<open>d.get(k, default)\<close> returns
  the default instead.
\<close>

definition py_subscript :: "('k \<rightharpoonup> 'v) \<Rightarrow> 'k \<Rightarrow> py_error + 'v" where
  "py_subscript d k = (case d k of None \<Rightarrow> Inl KeyError | Some v \<Rightarrow> Inr v)"

definition py_get :: "('k \<rightharpoonup> 'v) \<Rightarrow> 'k \<Rightarrow> 'v \<Rightarrow> 'v" where
  "py_get d k dflt = (case d k of None \<Rightarrow> dflt | Some v \<Rightarrow> v)"

text \<open>
  The expression
  \<open>emotion_presets.get(state.primary_emotion, emotion_presets[PrimaryEmotion.NEUTRAL])[intensity_level]\<close>.
  The default argument is evaluated first, whether it is needed or not.
\<close>

definition preset_lookup :: "PrimaryEmotion \<Rightarrow> string \<Rightarrow> py_error + voice_settings" where
  "preset_lookup e level =
     (case py_subscript emotion_presets NEUTRAL of
        Inl err \<Rightarrow> Inl err
      | Inr dflt \<Rightarrow> py_subscript (py_get emotion_presets e dflt) level)"

text \<open>
  The body-state block: \<open>if state.body_state:\<close> and the two branches on \<open>energy\<close>.
  The preset is a fresh dictionary of this call, so the assignment to \<open>preset["style"]\<close>
  is an update of the value returned.
\<close>

definition apply_body_state :: "BodyState option \<Rightarrow> voice_settings \<Rightarrow> voice_settings" where
  "apply_body_state bs preset =
     (case bs of
        None \<Rightarrow> preset
      | Some b \<Rightarrow>
          if energy b > 0.7 then preset\<lparr>style := min 1.0 (style preset * 1.2)\<rparr>
          else if energy b < 0.3 then preset\<lparr>style := style preset * 0.7\<rparr>
          else preset)"

text \<open>
  The function returns \<open>{"voice_settings": preset}\<close>; the model returns the preset.
\<close>

definition generate_elevenlabs_config :: "EmotiveVoiceState \<Rightarrow> py_error + voice_settings" where
  "generate_elevenlabs_config state =
     (case preset_lookup (primary_emotion state) (intensity_level (intensity state)) of
        Inl err \<Rightarrow> Inl err
      | Inr preset \<Rightarrow> Inr (apply_body_state (body_state state) preset))"

section \<open>The frame processor: \<open>EmotiveTTSProcessor.process_frame\<close>\<close>

datatype Frame =
  LLMFullResponseStartFrame
| LLMFullResponseEndFrame
| TextFrame string
| TTSTextFrame string
| OtherFrame nat

datatype FrameDirection = DOWNSTREAM | UPSTREAM

datatype log_entry =
  ConfigUpdated voice_settings
| ConfigUpdateFailed
| EmotionChanged PrimaryEmotion real

text \<open>
  The fields of the processor that \<open>process_frame\<close> reads and writes (without the
  leading underscore), followed by a trace of its effects: how often
  \<open>_get_current_state\<close> was awaited, the configurations handed to the
  \<open>_update_tts_config\<close> callback, the frames pushed on, and the \<open>info\<close> and
  \<open>warning\<close> log lines about configurations and emotions.
\<close>

record EmotiveTTSProcessor =
  in_llm_response :: bool
  emotion_applied_for_utterance :: bool
  last_emotion :: "PrimaryEmotion option"
  use_ssml :: bool
  update_tts_config :: bool
  log_emotions :: bool
  state_requests :: nat
  config_updates :: "voice_settings list"
  pushed :: "(Frame \<times> FrameDirection) list"
  logged :: "log_entry list"

text \<open>
  What the world answers during one call: the snapshot of the external emotional-state
  source (\<open>None\<close> when it is unavailable or throws) and whether the callback
  \<open>_update_tts_config\<close> raises.
\<close>

record environment =
  source :: "EmotiveVoiceState option"
  update_raises :: bool

text \<open>
  Modelled from the spec: the method \<open>_get_current_state\<close> is not among the sources.
  By section 4.3 of the specification a source that is unavailable is replaced by a
  neutral snapshot of intensity 0 and the failure is not propagated.
\<close>

definition neutral_state :: EmotiveVoiceState where
  "neutral_state = \<lparr>primary_emotion = NEUTRAL, intensity = 0, body_state = None\<rparr>"

definition get_current_state :: "EmotiveVoiceState option \<Rightarrow> EmotiveVoiceState" where
  "get_current_state src = (case src of None \<Rightarrow> neutral_state | Some st \<Rightarrow> st)"

definition push_frame :: "Frame \<Rightarrow> FrameDirection \<Rightarrow> EmotiveTTSProcessor \<Rightarrow> EmotiveTTSProcessor" where
  "push_frame frame direction self = self\<lparr>pushed := pushed self @ [(frame, direction)]\<rparr>"

fun frame_text :: "Frame \<Rightarrow> string" where
  "frame_text (TextFrame t) = t"
| "frame_text (TTSTextFrame t) = t"
| "frame_text _ = []"

text \<open>
  \<open>TTSTextFrame(text=modified_text)\<close> for a \<open>TTSTextFrame\<close>, \<open>TextFrame(text=modified_text)\<close>
  otherwise.
\<close>

fun with_text :: "Frame \<Rightarrow> string \<Rightarrow> Frame" where
  "with_text (TTSTextFrame _) t = TTSTextFrame t"
| "with_text _ t = TextFrame t"

text \<open>
  The block under \<open>if not self._emotion_applied_for_utterance\<close>. The function
  \<open>generate_ssml_prefix\<close> is not among the sources and is a parameter. The call of
  \<open>generate_elevenlabs_config\<close> stands before the \<open>try\<close>, so an exception of it
  would leave \<open>process_frame\<close> with the flag unset and the frame not pushed; an exception
  of the callback is caught and logged.
\<close>

definition apply_emotion ::
  "(EmotiveVoiceState \<Rightarrow> bool \<Rightarrow> string) \<Rightarrow> environment \<Rightarrow> EmotiveTTSProcessor \<Rightarrow> Frame
     \<Rightarrow> EmotiveTTSProcessor \<times> py_error option" where
  "apply_emotion generate_ssml_prefix env self frame =
     (let self1 = self\<lparr>state_requests := Suc (state_requests self)\<rparr>;
          state = get_current_state (source env);
          frame1 =
            (if use_ssml self1 then
               (let ssml_prefix = generate_ssml_prefix state (use_ssml self1) in
                if ssml_prefix \<noteq> [] then with_text frame (ssml_prefix @ '' '' @ frame_text frame)
                else frame)
             else frame);
          updated =
            (if update_tts_config self1 then
               (case generate_elevenlabs_config state of
                  Inl err \<Rightarrow> Inl err
                | Inr config \<Rightarrow>
                    Inr (self1\<lparr>config_updates := config_updates self1 @ [config],
                              logged := logged self1 @
                                [if update_raises env then ConfigUpdateFailed
                                 else ConfigUpdated config]\<rparr>))
             else Inr self1)
      in case updated of
           Inl err \<Rightarrow> (self1, Some err)
         | Inr self2 \<Rightarrow>
             (let self3 = self2\<lparr>emotion_applied_for_utterance := True\<rparr>;
                  current_emotion = primary_emotion state;
                  self4 =
                    (if log_emotions self3 \<and> Some current_emotion \<noteq> last_emotion self3
                     then self3\<lparr>logged := logged self3 @
                                   [EmotionChanged current_emotion (intensity state)],
                                 last_emotion := Some current_emotion\<rparr>
                     else self3)
              in (push_frame frame1 DOWNSTREAM self4, None)))"

text \<open>
  \<open>process_frame\<close>: the result is the processor after the call and the exception that
  left the call, if any. Frames travelling upstream and frames of other classes are
  only pushed on.
\<close>

fun process_frame ::
  "(EmotiveVoiceState \<Rightarrow> bool \<Rightarrow> string) \<Rightarrow> environment \<Rightarrow> EmotiveTTSProcessor \<Rightarrow> Frame
     \<Rightarrow> FrameDirection \<Rightarrow> EmotiveTTSProcessor \<times> py_error option" where
  "process_frame gen env self frame UPSTREAM = (push_frame frame UPSTREAM self, None)"
| "process_frame gen env self LLMFullResponseStartFrame DOWNSTREAM =
     (push_frame LLMFullResponseStartFrame DOWNSTREAM
        (self\<lparr>in_llm_response := True, emotion_applied_for_utterance := False\<rparr>), None)"
| "process_frame gen env self LLMFullResponseEndFrame DOWNSTREAM =
     (push_frame LLMFullResponseEndFrame DOWNSTREAM
        (self\<lparr>in_llm_response := False, emotion_applied_for_utterance := False\<rparr>), None)"
| "process_frame gen env self (TextFrame t) DOWNSTREAM =
     (if \<not> emotion_applied_for_utterance self then apply_emotion gen env self (TextFrame t)
      else (push_frame (TextFrame t) DOWNSTREAM self, None))"
| "process_frame gen env self (TTSTextFrame t) DOWNSTREAM =
     (if \<not> emotion_applied_for_utterance self then apply_emotion gen env self (TTSTextFrame t)
      else (push_frame (TTSTextFrame t) DOWNSTREAM self, None))"
| "process_frame gen env self (OtherFrame k) DOWNSTREAM =
     (push_frame (OtherFrame k) DOWNSTREAM self, None)"

text \<open>
  A stream of frames, each with the environment of its call, processed in arrival order.
  The processor object survives an exception with the changes made up to it.
\<close>

type_synonym arrival = "environment \<times> Frame \<times> FrameDirection"

fun process_frames ::
  "(EmotiveVoiceState \<Rightarrow> bool \<Rightarrow> string) \<Rightarrow> EmotiveTTSProcessor \<Rightarrow> arrival list
     \<Rightarrow> EmotiveTTSProcessor" where
  "process_frames gen self [] = self"
| "process_frames gen self ((env, frame, direction) # rest) =
     process_frames gen (fst (process_frame gen env self frame direction)) rest"

fun is_text_frame :: "Frame \<Rightarrow> bool" where
  "is_text_frame (TextFrame _) = True"
| "is_text_frame (TTSTextFrame _) = True"
| "is_text_frame _ = False"

fun text_chunk :: "arrival \<Rightarrow> bool" where
  "text_chunk (env, frame, direction) = (is_text_frame frame \<and> direction = DOWNSTREAM)"

fun utterance_boundary :: "arrival \<Rightarrow> bool" where
  "utterance_boundary (env, LLMFullResponseStartFrame, DOWNSTREAM) = True"
| "utterance_boundary (env, LLMFullResponseEndFrame, DOWNSTREAM) = True"
| "utterance_boundary _ = False"

section \<open>The session hook: \<open>usePipecatSync\<close>\<close>

text \<open>
  JavaScript strings are sequences of UTF-16 code units. \<open>String.prototype.trim\<close> removes
  the code units of the ECMAScript productions WhiteSpace and LineTerminator from both
  ends, and an empty string is falsy.
\<close>

type_synonym js_string = "nat list"

definition js_string_of :: "string \<Rightarrow> js_string" where
  "js_string_of s = map of_char s"

definition is_white_space :: "nat \<Rightarrow> bool" where
  "is_white_space c \<longleftrightarrow>
     c \<in> {0x9, 0xA, 0xB, 0xC, 0xD, 0x20, 0xA0, 0x1680, 0x2028, 0x2029, 0x202F, 0x205F, 0x3000, 0xFEFF}
     \<or> (0x2000 \<le> c \<and> c \<le> 0x200A)"

definition trim :: "js_string \<Rightarrow> js_string" where
  "trim s = rev (dropWhile is_white_space (rev (dropWhile is_white_space s)))"

definition truthy :: "js_string \<Rightarrow> bool" where
  "truthy s \<longleftrightarrow> s \<noteq> []"

datatype Role = user | assistant

datatype VoiceState = idle | listening | processing

text \<open>
  A message object as the handlers build it: \<open>isVoiceTranscript\<close> and \<open>lens\<close> are
  \<open>None\<close> where the object literal has no such key or the value is \<open>undefined\<close>.
\<close>

record Message =
  role :: Role
  content :: js_string
  isVoiceTranscript :: "bool option"
  lens :: "js_string option"

text \<open>
  Modelled from the spec: the stores \<open>usePipecatStore\<close>, \<open>useGingerStore\<close> and
  \<open>useConversationStore\<close> are not among the sources; the hook only reads their state
  and calls their actions. The record holds the fields the hook reads and those its
  actions write: the speaking flags and the two utterance buffers of the first store,
  the voice state, the active lenses and the messages of the second, the messages of
  the third (the conversation history).
\<close>

record Stores =
  isUserSpeaking :: bool
  isBotSpeaking :: bool
  currentUserUtterance :: js_string
  currentBotUtterance :: js_string
  voiceState :: VoiceState
  activeLenses :: "js_string list"
  conversationMessages :: "Message list"
  gingerMessages :: "Message list"

text \<open>
  Modelled from the spec: the actions of the missing stores. By section 4.4 of the
  specification a user transcript chunk replaces the user buffer, a bot text chunk is
  appended to the bot buffer, a bot start clears the bot buffer, and finalizing an
  utterance resets its buffer. The setters store their argument, and \<open>addMessage\<close>
  appends the record to the messages of its store.
\<close>

definition setUserSpeaking :: "bool \<Rightarrow> Stores \<Rightarrow> Stores" where
  "setUserSpeaking b s = s\<lparr>isUserSpeaking := b\<rparr>"

definition setBotSpeaking :: "bool \<Rightarrow> Stores \<Rightarrow> Stores" where
  "setBotSpeaking b s = s\<lparr>isBotSpeaking := b\<rparr>"

definition setVoiceState :: "VoiceState \<Rightarrow> Stores \<Rightarrow> Stores" where
  "setVoiceState v s = s\<lparr>voiceState := v\<rparr>"

definition updateCurrentUserUtterance :: "js_string \<Rightarrow> Stores \<Rightarrow> Stores" where
  "updateCurrentUserUtterance text s = s\<lparr>currentUserUtterance := text\<rparr>"

definition updateCurrentBotUtterance :: "js_string \<Rightarrow> Stores \<Rightarrow> Stores" where
  "updateCurrentBotUtterance text s = s\<lparr>currentBotUtterance := currentBotUtterance s @ text\<rparr>"

definition resetCurrentBotUtterance :: "Stores \<Rightarrow> Stores" where
  "resetCurrentBotUtterance s = s\<lparr>currentBotUtterance := []\<rparr>"

definition finalizeUserUtterance :: "Stores \<Rightarrow> Stores" where
  "finalizeUserUtterance s = s\<lparr>currentUserUtterance := []\<rparr>"

definition finalizeBotUtterance :: "Stores \<Rightarrow> Stores" where
  "finalizeBotUtterance s = s\<lparr>currentBotUtterance := []\<rparr>"

definition addConversationMessage :: "Message \<Rightarrow> Stores \<Rightarrow> Stores" where
  "addConversationMessage m s = s\<lparr>conversationMessages := conversationMessages s @ [m]\<rparr>"

definition addGingerMessage :: "Message \<Rightarrow> Stores \<Rightarrow> Stores" where
  "addGingerMessage m s = s\<lparr>gingerMessages := gingerMessages s @ [m]\<rparr>"

text \<open>The handlers of the hook, statement by statement (logging left out).\<close>

definition handleUserStartedSpeaking :: "Stores \<Rightarrow> Stores" where
  "handleUserStartedSpeaking s = setVoiceState listening (setUserSpeaking True s)"

definition handleUserStoppedSpeaking :: "Stores \<Rightarrow> Stores" where
  "handleUserStoppedSpeaking s =
     (let utterance = currentUserUtterance s;
          s1 = (if truthy (trim utterance)
                then addConversationMessage
                       \<lparr>role = user, content = trim utterance,
                        isVoiceTranscript = Some True, lens = None\<rparr> s
                else s)
      in setVoiceState processing (finalizeUserUtterance (setUserSpeaking False s1)))"

definition handleBotStartedSpeaking :: "Stores \<Rightarrow> Stores" where
  "handleBotStartedSpeaking s = setBotSpeaking True (resetCurrentBotUtterance s)"

text \<open>\<open>activeLenses[0]\<close> of an empty array is \<open>undefined\<close>.\<close>

definition first_lens :: "js_string list \<Rightarrow> js_string option" where
  "first_lens ls = (case ls of [] \<Rightarrow> None | l # _ \<Rightarrow> Some l)"

definition handleBotStoppedSpeaking :: "Stores \<Rightarrow> Stores" where
  "handleBotStoppedSpeaking s =
     (let utterance = currentBotUtterance s;
          s1 = (if truthy (trim utterance)
                then (let activeLenses = activeLenses s in
                      addGingerMessage
                        \<lparr>role = assistant, content = trim utterance,
                         isVoiceTranscript = None, lens = None\<rparr>
                        (addConversationMessage
                           \<lparr>role = assistant, content = trim utterance,
                            isVoiceTranscript = None, lens = first_lens activeLenses\<rparr> s))
                else s)
      in setVoiceState idle (finalizeBotUtterance (setBotSpeaking False s1)))"

definition handleUserTranscript :: "js_string \<Rightarrow> Stores \<Rightarrow> Stores" where
  "handleUserTranscript text s = updateCurrentUserUtterance text s"

definition handleBotTranscript :: "js_string \<Rightarrow> Stores \<Rightarrow> Stores" where
  "handleBotTranscript text s = s"

definition handleBotLlmText :: "js_string \<Rightarrow> Stores \<Rightarrow> Stores" where
  "handleBotLlmText text s = updateCurrentBotUtterance text s"

text \<open>The events the hook registers handlers for, and their dispatch in arrival order.\<close>

datatype RTVIEvent =
  UserStartedSpeaking
| UserStoppedSpeaking
| BotStartedSpeaking
| BotStoppedSpeaking
| UserTranscript js_string
| BotTranscript js_string
| BotLlmText js_string

fun handle_event :: "RTVIEvent \<Rightarrow> Stores \<Rightarrow> Stores" where
  "handle_event UserStartedSpeaking s = handleUserStartedSpeaking s"
| "handle_event UserStoppedSpeaking s = handleUserStoppedSpeaking s"
| "handle_event BotStartedSpeaking s = handleBotStartedSpeaking s"
| "handle_event BotStoppedSpeaking s = handleBotStoppedSpeaking s"
| "handle_event (UserTranscript text) s = handleUserTranscript text s"
| "handle_event (BotTranscript text) s = handleBotTranscript text s"
| "handle_event (BotLlmText text) s = handleBotLlmText text s"

fun handle_events :: "RTVIEvent list \<Rightarrow> Stores \<Rightarrow> Stores" where
  "handle_events [] s = s"
| "handle_events (e # es) s = handle_events es (handle_event e s)"

section \<open>Concrete inputs\<close>

text \<open>
  A processor as constructed for a backend driven by voice settings (no SSML, a
  configuration callback, emotion logging on), before any frame; a prefix generator that
  yields no markup; the stores of a session at rest; and stores whose two buffers hold
  white space only (two spaces; a tab and a line feed).
\<close>

definition fresh_processor :: EmotiveTTSProcessor where
  "fresh_processor =
     \<lparr>in_llm_response = False, emotion_applied_for_utterance = False, last_emotion = None,
      use_ssml = False, update_tts_config = True, log_emotions = True,
      state_requests = 0, config_updates = [], pushed = [], logged = []\<rparr>"

definition no_prefix :: "EmotiveVoiceState \<Rightarrow> bool \<Rightarrow> string" where
  "no_prefix state ssml = []"

definition idle_stores :: Stores where
  "idle_stores =
     \<lparr>isUserSpeaking = False, isBotSpeaking = False, currentUserUtterance = [],
      currentBotUtterance = [], voiceState = idle, activeLenses = [],
      conversationMessages = [], gingerMessages = []\<rparr>"

definition whitespace_stores :: Stores where
  "whitespace_stores =
     \<lparr>isUserSpeaking = True, isBotSpeaking = True, currentUserUtterance = [0x20, 0x20],
      currentBotUtterance = [0x9, 0xA], voiceState = listening, activeLenses = [],
      conversationMessages = [], gingerMessages = []\<rparr>"

section \<open>Properties of the configuration\<close>

lemmas lookup_defs =
  preset_lookup_def py_get_def py_subscript_def emotion_presets_def

lemmas config_defs =
  generate_elevenlabs_config_def intensity_level_def apply_body_state_def lookup_defs

lemma intensity_level_cases:
  "intensity_level i = ''low'' \<or> intensity_level i = ''medium'' \<or> intensity_level i = ''high''"
  by (simp add: intensity_level_def)

lemma preset_lookup_defined:
  assumes "level = ''low'' \<or> level = ''medium'' \<or> level = ''high''"
  shows "\<exists>v. preset_lookup e level = Inr v"
  using assms by (cases e) (auto simp: lookup_defs)

lemma generate_elevenlabs_config_defined: "\<exists>v. generate_elevenlabs_config st = Inr v"
proof -
  obtain p where "preset_lookup (primary_emotion st) (intensity_level (intensity st)) = Inr p"
    using preset_lookup_defined [OF intensity_level_cases] by blast
  then show ?thesis by (simp add: generate_elevenlabs_config_def)
qed

lemma preset_lookup_range:
  assumes "preset_lookup e level = Inr p"
  shows "0 \<le> style p \<and> style p \<le> 1 \<and> 0 \<le> stability p \<and> stability p \<le> 1
       \<and> 0 \<le> similarity_boost p \<and> similarity_boost p \<le> 1"
  using assms by (cases e) (auto simp: lookup_defs split: if_splits)

lemma apply_body_state_range:
  assumes "0 \<le> style p" and "style p \<le> 1"
  shows "0 \<le> style (apply_body_state bs p) \<and> style (apply_body_state bs p) \<le> 1"
  using assms by (auto simp: apply_body_state_def split: option.splits)

lemma apply_body_state_others:
  "stability (apply_body_state bs p) = stability p"
  "similarity_boost (apply_body_state bs p) = similarity_boost p"
  "use_speaker_boost (apply_body_state bs p) = use_speaker_boost p"
  by (simp_all add: apply_body_state_def split: option.splits)

text \<open>
  C2. The table has an entry for each of the seven emotions and each of the three
  buckets, and the lookup expression of the function returns that entry: with the
  totality of \<open>generate_elevenlabs_config\<close> no \<open>KeyError\<close> is reachable.
\<close>

theorem emotion_presets_complete:
  assumes "e \<in> {JOY, SADNESS, ANGER, FEAR, DISGUST, SURPRISE, NEUTRAL}"
    and "level \<in> {''low'', ''medium'', ''high''}"
  shows "\<exists>m v. emotion_presets e = Some m \<and> m level = Some v \<and> preset_lookup e level = Inr v"
  using assms by (auto simp: lookup_defs)

theorem emotion_presets_complete_witness:
  "ANGER \<in> {JOY, SADNESS, ANGER, FEAR, DISGUST, SURPRISE, NEUTRAL}
   \<and> ''high'' \<in> {''low'', ''medium'', ''high''}
   \<and> (\<exists>m v. emotion_presets ANGER = Some m \<and> m ''high'' = Some v
          \<and> preset_lookup ANGER ''high'' = Inr v)"
  using emotion_presets_complete [of ANGER "''high''"] by simp

text \<open>
  C3. The bucket of an intensity: below 0.35 it is low, from 0.35 up to but excluding 0.7
  it is medium, from 0.7 on it is high; so 0.35 and 0.6999 are medium and 0.7 is high.
  The last two conjuncts show the boundary in the configuration returned.
\<close>

theorem intensity_level_boundaries:
  "(i < 0.35 \<longrightarrow> intensity_level i = ''low'')
   \<and> (0.35 \<le> i \<and> i < 0.7 \<longrightarrow> intensity_level i = ''medium'')
   \<and> (0.7 \<le> i \<longrightarrow> intensity_level i = ''high'')
   \<and> intensity_level 0.35 = ''medium''
   \<and> intensity_level 0.6999 = ''medium''
   \<and> intensity_level 0.7 = ''high''
   \<and> generate_elevenlabs_config \<lparr>primary_emotion = SADNESS, intensity = 0.6999, body_state = None\<rparr>
       = Inr \<lparr>stability = 0.7, similarity_boost = 0.8, style = 0.3, use_speaker_boost = False\<rparr>
   \<and> generate_elevenlabs_config \<lparr>primary_emotion = SADNESS, intensity = 0.7, body_state = None\<rparr>
       = Inr \<lparr>stability = 0.8, similarity_boost = 0.85, style = 0.4, use_speaker_boost = False\<rparr>"
  by (simp add: config_defs)

theorem intensity_level_boundaries_witness:
  "(0.2::real) < 0.35 \<and> intensity_level 0.2 = ''low''
   \<and> (0.35::real) \<le> 0.5 \<and> (0.5::real) < 0.7 \<and> intensity_level 0.5 = ''medium''
   \<and> (0.7::real) \<le> 1 \<and> intensity_level 1 = ''high''"
  using intensity_level_boundaries [of "0.2"] intensity_level_boundaries [of "0.5"]
    intensity_level_boundaries [of 1]
  by simp

text \<open>
  C4. For every state the configuration returned is the preset found by the lookup for
  the state's emotion and bucket with the body-state modifier applied to it afterwards.
  The modifier: with energy above 0.7 the style is multiplied by 1.2 and cut off at 1;
  with energy below 0.3 it is multiplied by 0.7; a style in [0,1] stays in [0,1]. Every
  configuration the function returns has its three numeric fields in [0,1], and energy
  1.0 on the base style 0.9 (anger, high) gives the style 1.0.
\<close>

theorem body_modifiers_clamped:
  "(\<exists>base. preset_lookup (primary_emotion st) (intensity_level (intensity st)) = Inr base
        \<and> generate_elevenlabs_config st = Inr (apply_body_state (body_state st) base))
   \<and> (0.7 < energy b \<longrightarrow> apply_body_state (Some b) p = p\<lparr>style := min 1 (style p * 1.2)\<rparr>)
   \<and> (\<not> 0.7 < energy b \<and> energy b < 0.3 \<longrightarrow>
        apply_body_state (Some b) p = p\<lparr>style := style p * 0.7\<rparr>)
   \<and> (0 \<le> style p \<and> style p \<le> 1 \<longrightarrow>
        0 \<le> style (apply_body_state bs p) \<and> style (apply_body_state bs p) \<le> 1)
   \<and> (generate_elevenlabs_config st = Inr v \<longrightarrow>
        0 \<le> style v \<and> style v \<le> 1 \<and> 0 \<le> stability v \<and> stability v \<le> 1
        \<and> 0 \<le> similarity_boost v \<and> similarity_boost v \<le> 1)
   \<and> generate_elevenlabs_config
        \<lparr>primary_emotion = ANGER, intensity = 0.9,
         body_state = Some \<lparr>energy = 1.0, tension = t, valence = va, arousal = a\<rparr>\<rparr>
       = Inr \<lparr>stability = 0.1, similarity_boost = 0.65, style = 1.0, use_speaker_boost = True\<rparr>"
proof -
  obtain p' where l: "preset_lookup (primary_emotion st) (intensity_level (intensity st)) = Inr p'"
    using preset_lookup_defined [OF intensity_level_cases] by blast
  have g: "generate_elevenlabs_config st = Inr (apply_body_state (body_state st) p')"
    using l by (simp add: generate_elevenlabs_config_def)
  have link: "\<exists>base. preset_lookup (primary_emotion st) (intensity_level (intensity st)) = Inr base
        \<and> generate_elevenlabs_config st = Inr (apply_body_state (body_state st) base)"
    using l g by blast
  have returned: "0 \<le> style v \<and> style v \<le> 1 \<and> 0 \<le> stability v \<and> stability v \<le> 1
        \<and> 0 \<le> similarity_boost v \<and> similarity_boost v \<le> 1"
    if r: "generate_elevenlabs_config st = Inr v"
  proof -
    have v: "v = apply_body_state (body_state st) p'"
      using r g by simp
    show ?thesis
      using preset_lookup_range [OF l] apply_body_state_range [of p' "body_state st"]
      by (simp add: v apply_body_state_others)
  qed
  have anger: "generate_elevenlabs_config
        \<lparr>primary_emotion = ANGER, intensity = 0.9,
         body_state = Some \<lparr>energy = 1.0, tension = t, valence = va, arousal = a\<rparr>\<rparr>
       = Inr \<lparr>stability = 0.1, similarity_boost = 0.65, style = 1.0, use_speaker_boost = True\<rparr>"
    by (simp add: config_defs)
  have modifier: "(0.7 < energy b \<longrightarrow> apply_body_state (Some b) p = p\<lparr>style := min 1 (style p * 1.2)\<rparr>)
   \<and> (\<not> 0.7 < energy b \<and> energy b < 0.3 \<longrightarrow>
        apply_body_state (Some b) p = p\<lparr>style := style p * 0.7\<rparr>)"
    by (simp add: apply_body_state_def)
  have range: "0 \<le> style p \<and> style p \<le> 1 \<longrightarrow>
        0 \<le> style (apply_body_state bs p) \<and> style (apply_body_state bs p) \<le> 1"
    using apply_body_state_range [of p bs] by blast
  show ?thesis
    using link modifier range returned anger by blast
qed

theorem body_modifiers_clamped_witness:
  "preset_lookup ANGER (intensity_level 0.9)
       = Inr \<lparr>stability = 0.1, similarity_boost = 0.65, style = 0.9, use_speaker_boost = True\<rparr>
   \<and> (0.7::real) < energy \<lparr>energy = 1.0, tension = 0, valence = 0, arousal = 0\<rparr>
   \<and> apply_body_state (Some \<lparr>energy = 1.0, tension = 0, valence = 0, arousal = 0\<rparr>)
        \<lparr>stability = 0.1, similarity_boost = 0.65, style = 0.9, use_speaker_boost = True\<rparr>
       = \<lparr>stability = 0.1, similarity_boost = 0.65, style = 1, use_speaker_boost = True\<rparr>
   \<and> energy \<lparr>energy = 0.1, tension = 0, valence = 0, arousal = 0\<rparr> < (0.3::real)
   \<and> apply_body_state (Some \<lparr>energy = 0.1, tension = 0, valence = 0, arousal = 0\<rparr>)
        \<lparr>stability = 0.1, similarity_boost = 0.65, style = 0.9, use_speaker_boost = True\<rparr>
       = \<lparr>stability = 0.1, similarity_boost = 0.65, style = 0.63, use_speaker_boost = True\<rparr>
   \<and> generate_elevenlabs_config
        \<lparr>primary_emotion = ANGER, intensity = 0.9,
         body_state = Some \<lparr>energy = 0.1, tension = 0, valence = 0, arousal = 0\<rparr>\<rparr>
       = Inr \<lparr>stability = 0.1, similarity_boost = 0.65, style = 0.63, use_speaker_boost = True\<rparr>
   \<and> generate_elevenlabs_config
        \<lparr>primary_emotion = ANGER, intensity = 0.9,
         body_state = Some \<lparr>energy = 1.0, tension = 0, valence = 0, arousal = 0\<rparr>\<rparr>
       = Inr \<lparr>stability = 0.1, similarity_boost = 0.65, style = 1.0, use_speaker_boost = True\<rparr>
   \<and> style \<lparr>stability = 0.1, similarity_boost = 0.65, style = 1.0, use_speaker_boost = True\<rparr> \<le> 1"
  using
    body_modifiers_clamped
      [where b = "\<lparr>energy = 1.0, tension = 0, valence = 0, arousal = 0\<rparr>"
         and p = "\<lparr>stability = 0.1, similarity_boost = 0.65, style = 0.9, use_speaker_boost = True\<rparr>"
         and bs = None
         and st = "\<lparr>primary_emotion = ANGER, intensity = 0.9,
            body_state = Some \<lparr>energy = 1.0, tension = 0, valence = 0, arousal = 0\<rparr>\<rparr>"
         and v = "\<lparr>stability = 0.1, similarity_boost = 0.65, style = 1.0, use_speaker_boost = True\<rparr>"
         and t = 0 and va = 0 and a = 0]
    body_modifiers_clamped
      [where b = "\<lparr>energy = 0.1, tension = 0, valence = 0, arousal = 0\<rparr>"
         and p = "\<lparr>stability = 0.1, similarity_boost = 0.65, style = 0.9, use_speaker_boost = True\<rparr>"
         and bs = None
         and st = "\<lparr>primary_emotion = ANGER, intensity = 0.9,
            body_state = Some \<lparr>energy = 0.1, tension = 0, valence = 0, arousal = 0\<rparr>\<rparr>"
         and v = "\<lparr>stability = 0.1, similarity_boost = 0.65, style = 0.63, use_speaker_boost = True\<rparr>"
         and t = 0 and va = 0 and a = 0]
  by (simp add: lookup_defs intensity_level_def)

text \<open>
  C10. An emotion that is none of the seven keys does not fail: the lookup falls back to
  the neutral presets, the configuration is the neutral one of the bucket (the same as
  for \<open>NEUTRAL\<close> itself), and the function returns a configuration for every state.
\<close>

theorem unmapped_emotion_falls_back_to_neutral:
  "emotion_presets (OTHER n) = None
   \<and> preset_lookup (OTHER n) level = preset_lookup NEUTRAL level
   \<and> generate_elevenlabs_config \<lparr>primary_emotion = OTHER n, intensity = i, body_state = bs\<rparr>
       = generate_elevenlabs_config \<lparr>primary_emotion = NEUTRAL, intensity = i, body_state = bs\<rparr>
   \<and> generate_elevenlabs_config \<lparr>primary_emotion = OTHER n, intensity = i, body_state = bs\<rparr>
       = Inr (apply_body_state bs
               \<lparr>stability = 0.5, similarity_boost = 0.75, style = 0, use_speaker_boost = False\<rparr>)
   \<and> (\<exists>v. generate_elevenlabs_config st = Inr v)"
proof -
  have "preset_lookup (OTHER n) level = preset_lookup NEUTRAL level" for level
    by (simp add: lookup_defs)
  moreover have "preset_lookup NEUTRAL (intensity_level i)
      = Inr \<lparr>stability = 0.5, similarity_boost = 0.75, style = 0, use_speaker_boost = False\<rparr>"
    by (simp add: lookup_defs intensity_level_def)
  moreover have "emotion_presets (OTHER n) = None"
    by (simp add: emotion_presets_def)
  ultimately show ?thesis
    using generate_elevenlabs_config_defined [of st]
    by (simp add: generate_elevenlabs_config_def)
qed




section \<open>Properties of the frame processor\<close>

lemma apply_emotion_result:
  assumes "generate_elevenlabs_config (get_current_state (source env)) = Inr config"
  shows "snd (apply_emotion gen env self frame) = None"
    and "emotion_applied_for_utterance (fst (apply_emotion gen env self frame))"
    and "state_requests (fst (apply_emotion gen env self frame)) = Suc (state_requests self)"
    and "config_updates (fst (apply_emotion gen env self frame)) =
           config_updates self @ (if update_tts_config self then [config] else [])"
  using assms by (simp_all add: apply_emotion_def Let_def push_frame_def)

lemma process_frame_no_exception: "snd (process_frame gen env self frame direction) = None"
proof -
  obtain config where c: "generate_elevenlabs_config (get_current_state (source env)) = Inr config"
    using generate_elevenlabs_config_defined by blast
  show ?thesis
    by (cases frame; cases direction) (simp_all add: apply_emotion_result(1) [OF c])
qed

lemma text_chunk_first:
  assumes "text_chunk (env, frame, direction)" and "\<not> emotion_applied_for_utterance self"
  shows "emotion_applied_for_utterance (fst (process_frame gen env self frame direction))"
    and "state_requests (fst (process_frame gen env self frame direction)) = Suc (state_requests self)"
    and "length (config_updates (fst (process_frame gen env self frame direction)))
           \<le> Suc (length (config_updates self))"
proof -
  obtain config where c: "generate_elevenlabs_config (get_current_state (source env)) = Inr config"
    using generate_elevenlabs_config_defined by blast
  note r = apply_emotion_result [OF c]
  show "emotion_applied_for_utterance (fst (process_frame gen env self frame direction))"
    using assms by (cases frame; cases direction) (simp_all add: r)
  show "state_requests (fst (process_frame gen env self frame direction)) = Suc (state_requests self)"
    using assms by (cases frame; cases direction) (simp_all add: r)
  show "length (config_updates (fst (process_frame gen env self frame direction)))
           \<le> Suc (length (config_updates self))"
    using assms by (cases frame; cases direction) (simp_all add: r)
qed

lemma text_chunk_later:
  assumes "text_chunk (env, frame, direction)" and "emotion_applied_for_utterance self"
  shows "process_frame gen env self frame direction = (push_frame frame direction self, None)"
  using assms by (cases frame; cases direction) simp_all

lemma other_arrival:
  assumes "\<not> text_chunk (env, frame, direction)" and "\<not> utterance_boundary (env, frame, direction)"
  shows "process_frame gen env self frame direction = (push_frame frame direction self, None)"
  using assms by (cases frame; cases direction) simp_all

lemma push_frame_fields [simp]:
  "emotion_applied_for_utterance (push_frame f d s) = emotion_applied_for_utterance s"
  "state_requests (push_frame f d s) = state_requests s"
  "config_updates (push_frame f d s) = config_updates s"
  by (simp_all add: push_frame_def)

lemma applied_stays:
  assumes "emotion_applied_for_utterance self" and "\<forall>a\<in>set arrivals. \<not> utterance_boundary a"
  shows "emotion_applied_for_utterance (process_frames gen self arrivals)
       \<and> state_requests (process_frames gen self arrivals) = state_requests self
       \<and> config_updates (process_frames gen self arrivals) = config_updates self"
  using assms
proof (induction arrivals arbitrary: self)
  case Nil
  then show ?case by simp
next
  case (Cons a arrivals)
  obtain env frame direction where a: "a = (env, frame, direction)" by (cases a) auto
  have nb: "\<not> utterance_boundary (env, frame, direction)" using Cons.prems(2) a by simp
  have step: "process_frame gen env self frame direction = (push_frame frame direction self, None)"
  proof (cases "text_chunk (env, frame, direction)")
    case True
    then show ?thesis using text_chunk_later Cons.prems(1) by blast
  next
    case False
    then show ?thesis using other_arrival nb by blast
  qed
  have "emotion_applied_for_utterance (push_frame frame direction self)"
    using Cons.prems(1) by simp
  moreover have "\<forall>a\<in>set arrivals. \<not> utterance_boundary a" using Cons.prems(2) by simp
  ultimately show ?case using Cons.IH [of "push_frame frame direction self"] a step by simp
qed

lemma not_applied_run:
  assumes "\<not> emotion_applied_for_utterance self" and "\<forall>a\<in>set arrivals. \<not> utterance_boundary a"
  shows "(emotion_applied_for_utterance (process_frames gen self arrivals)
            \<longleftrightarrow> (\<exists>a\<in>set arrivals. text_chunk a))
       \<and> state_requests (process_frames gen self arrivals)
           = state_requests self + (if \<exists>a\<in>set arrivals. text_chunk a then 1 else 0)
       \<and> length (config_updates (process_frames gen self arrivals))
           \<le> length (config_updates self) + 1"
  using assms
proof (induction arrivals arbitrary: self)
  case Nil
  then show ?case by simp
next
  case (Cons a arrivals)
  obtain env frame direction where a: "a = (env, frame, direction)" by (cases a) auto
  have nb: "\<not> utterance_boundary (env, frame, direction)" using Cons.prems(2) a by simp
  have rest: "\<forall>a\<in>set arrivals. \<not> utterance_boundary a" using Cons.prems(2) by simp
  let ?s = "fst (process_frame gen env self frame direction)"
  show ?case
  proof (cases "text_chunk (env, frame, direction)")
    case True
    note first = text_chunk_first [OF True Cons.prems(1), of gen]
    from applied_stays [OF first(1) rest, of gen] first True a
    show ?thesis by simp
  next
    case False
    have step: "process_frame gen env self frame direction = (push_frame frame direction self, None)"
      using other_arrival False nb by blast
    have "\<not> emotion_applied_for_utterance (push_frame frame direction self)"
      using Cons.prems(1) by simp
    from Cons.IH [OF this rest] False a step show ?thesis by simp
  qed
qed

lemma start_resets:
  "\<not> emotion_applied_for_utterance (fst (process_frame gen env self LLMFullResponseStartFrame DOWNSTREAM))"
  "state_requests (fst (process_frame gen env self LLMFullResponseStartFrame DOWNSTREAM)) = state_requests self"
  "config_updates (fst (process_frame gen env self LLMFullResponseStartFrame DOWNSTREAM)) = config_updates self"
  by simp_all

text \<open>
  C1. An utterance starts with an \<open>LLMFullResponseStartFrame\<close>, which resets the flag.
  Whatever arrives before the next start or end frame, the emotional state is requested
  once if a text frame is among the arrivals and never otherwise, at most one
  configuration reaches the synthesizer, and the flag is set exactly when a text frame
  has arrived. Applied to every prefix of the arrivals: the first text frame sets the
  flag and computes, and no later one does.
\<close>

theorem directive_once_per_utterance:
  assumes "\<forall>a\<in>set arrivals. \<not> utterance_boundary a"
  shows "\<not> emotion_applied_for_utterance
            (fst (process_frame gen env self LLMFullResponseStartFrame DOWNSTREAM))
       \<and> state_requests
            (process_frames gen
               (fst (process_frame gen env self LLMFullResponseStartFrame DOWNSTREAM)) arrivals)
           = state_requests self + (if \<exists>a\<in>set arrivals. text_chunk a then 1 else 0)
       \<and> length (config_updates
            (process_frames gen
               (fst (process_frame gen env self LLMFullResponseStartFrame DOWNSTREAM)) arrivals))
           \<le> length (config_updates self) + 1
       \<and> (emotion_applied_for_utterance
            (process_frames gen
               (fst (process_frame gen env self LLMFullResponseStartFrame DOWNSTREAM)) arrivals)
            \<longleftrightarrow> (\<exists>a\<in>set arrivals. text_chunk a))"
  using not_applied_run [OF start_resets(1) assms] start_resets(2,3)
  by simp

theorem directive_once_per_utterance_witness:
  "\<not> utterance_boundary (\<lparr>source = None, update_raises = False\<rparr>, TextFrame ''Hi'', DOWNSTREAM)
   \<and> \<not> utterance_boundary (\<lparr>source = None, update_raises = True\<rparr>, OtherFrame 0, DOWNSTREAM)
   \<and> \<not> utterance_boundary (\<lparr>source = None, update_raises = True\<rparr>, TextFrame '' there'', DOWNSTREAM)
   \<and> state_requests
        (process_frames no_prefix
           (fst (process_frame no_prefix \<lparr>source = None, update_raises = False\<rparr> fresh_processor
                   LLMFullResponseStartFrame DOWNSTREAM))
           [(\<lparr>source = None, update_raises = False\<rparr>, TextFrame ''Hi'', DOWNSTREAM),
            (\<lparr>source = None, update_raises = True\<rparr>, OtherFrame 0, DOWNSTREAM),
            (\<lparr>source = None, update_raises = True\<rparr>, TextFrame '' there'', DOWNSTREAM)])
       = state_requests fresh_processor + 1"
  using directive_once_per_utterance
    [of "[(\<lparr>source = None, update_raises = False\<rparr>, TextFrame ''Hi'', DOWNSTREAM),
          (\<lparr>source = None, update_raises = True\<rparr>, OtherFrame 0, DOWNSTREAM),
          (\<lparr>source = None, update_raises = True\<rparr>, TextFrame '' there'', DOWNSTREAM)]"
        no_prefix "\<lparr>source = None, update_raises = False\<rparr>" fresh_processor]
  by simp

text \<open>
  C5. With the emotional-state source unavailable, the first text frame of an utterance
  is processed on the neutral snapshot of intensity 0: the configuration handed to the
  synthesizer is the neutral one, and no exception leaves \<open>process_frame\<close>, whether the
  callback raises or not. The last conjunct: no call of \<open>process_frame\<close> ends in an
  exception.
\<close>

theorem unavailable_source_neutral_directive:
  assumes "source env = None" and "is_text_frame frame"
    and "\<not> emotion_applied_for_utterance self" and "update_tts_config self"
  shows "get_current_state (source env)
           = \<lparr>primary_emotion = NEUTRAL, intensity = 0, body_state = None\<rparr>
       \<and> generate_elevenlabs_config (get_current_state (source env))
           = Inr \<lparr>stability = 0.5, similarity_boost = 0.75, style = 0, use_speaker_boost = False\<rparr>
       \<and> snd (process_frame gen env self frame DOWNSTREAM) = None
       \<and> config_updates (fst (process_frame gen env self frame DOWNSTREAM))
           = config_updates self
               @ [\<lparr>stability = 0.5, similarity_boost = 0.75, style = 0, use_speaker_boost = False\<rparr>]
       \<and> snd (process_frame gen' env' self' frame' direction') = None"
proof -
  have s: "get_current_state (source env)
           = \<lparr>primary_emotion = NEUTRAL, intensity = 0, body_state = None\<rparr>"
    using assms(1) by (simp add: get_current_state_def neutral_state_def)
  have c: "generate_elevenlabs_config (get_current_state (source env))
           = Inr \<lparr>stability = 0.5, similarity_boost = 0.75, style = 0, use_speaker_boost = False\<rparr>"
    unfolding s by (simp add: config_defs)
  have u: "config_updates (fst (process_frame gen env self frame DOWNSTREAM))
           = config_updates self
               @ [\<lparr>stability = 0.5, similarity_boost = 0.75, style = 0, use_speaker_boost = False\<rparr>]"
    using assms(2-4) by (cases frame) (simp_all add: apply_emotion_result(4) [OF c])
  show ?thesis
    using s c u by (simp add: process_frame_no_exception)
qed

theorem unavailable_source_neutral_directive_witness:
  "source \<lparr>source = None, update_raises = True\<rparr> = None
   \<and> is_text_frame (TextFrame ''Hi'')
   \<and> \<not> emotion_applied_for_utterance fresh_processor
   \<and> update_tts_config fresh_processor
   \<and> snd (process_frame no_prefix \<lparr>source = None, update_raises = True\<rparr> fresh_processor
             (TextFrame ''Hi'') DOWNSTREAM) = None
   \<and> config_updates
        (fst (process_frame no_prefix \<lparr>source = None, update_raises = True\<rparr> fresh_processor
                (TextFrame ''Hi'') DOWNSTREAM))
       = [\<lparr>stability = 0.5, similarity_boost = 0.75, style = 0, use_speaker_boost = False\<rparr>]"
  using unavailable_source_neutral_directive
    [of "\<lparr>source = None, update_raises = True\<rparr>" "TextFrame ''Hi''" fresh_processor no_prefix]
  by (simp add: fresh_processor_def)

section \<open>Properties of the session hook\<close>

lemma trim_empty_iff: "trim s = [] \<longleftrightarrow> (\<forall>c\<in>set s. is_white_space c)"
proof
  assume e: "trim s = []"
  show "\<forall>c\<in>set s. is_white_space c"
  proof (cases "dropWhile is_white_space s = []")
    case True
    then show ?thesis by (simp add: dropWhile_eq_Nil_conv)
  next
    case False
    then have "\<not> is_white_space (hd (dropWhile is_white_space s))"
      by (rule hd_dropWhile)
    moreover have "hd (dropWhile is_white_space s) \<in> set (dropWhile is_white_space s)"
      using False by simp
    moreover have "\<forall>c\<in>set (dropWhile is_white_space s). is_white_space c"
      using e by (simp add: trim_def dropWhile_eq_Nil_conv)
    ultimately show ?thesis by blast
  qed
next
  assume "\<forall>c\<in>set s. is_white_space c"
  then have d: "dropWhile is_white_space s = []" by (simp add: dropWhile_eq_Nil_conv)
  show "trim s = []" unfolding trim_def d by simp
qed

lemmas store_actions =
  setUserSpeaking_def setBotSpeaking_def setVoiceState_def updateCurrentUserUtterance_def
  updateCurrentBotUtterance_def resetCurrentBotUtterance_def finalizeUserUtterance_def
  finalizeBotUtterance_def addConversationMessage_def addGingerMessage_def

lemma user_stop_history:
  "conversationMessages (handleUserStoppedSpeaking s) =
     conversationMessages s @
       (if \<forall>c\<in>set (currentUserUtterance s). is_white_space c then []
        else [\<lparr>role = user, content = trim (currentUserUtterance s),
               isVoiceTranscript = Some True, lens = None\<rparr>])"
  "gingerMessages (handleUserStoppedSpeaking s) = gingerMessages s"
  by (simp_all add: handleUserStoppedSpeaking_def Let_def truthy_def trim_empty_iff store_actions)

lemma bot_stop_history:
  "conversationMessages (handleBotStoppedSpeaking s) =
     conversationMessages s @
       (if \<forall>c\<in>set (currentBotUtterance s). is_white_space c then []
        else [\<lparr>role = assistant, content = trim (currentBotUtterance s),
               isVoiceTranscript = None, lens = first_lens (activeLenses s)\<rparr>])"
  "gingerMessages (handleBotStoppedSpeaking s) =
     gingerMessages s @
       (if \<forall>c\<in>set (currentBotUtterance s). is_white_space c then []
        else [\<lparr>role = assistant, content = trim (currentBotUtterance s),
               isVoiceTranscript = None, lens = None\<rparr>])"
  by (simp_all add: handleBotStoppedSpeaking_def Let_def truthy_def trim_empty_iff store_actions)
lemma trim_hi_there: "trim (js_string_of ''Hi there'') = js_string_of ''Hi there''"
  by (simp add: trim_def js_string_of_def is_white_space_def)

lemma hi_there_append: "js_string_of ''Hi'' @ js_string_of '' there'' = js_string_of ''Hi there''"
  by (simp add: js_string_of_def)

lemma hi_there_truthy: "truthy (js_string_of ''Hi there'')"
  by (simp add: truthy_def js_string_of_def)
lemma bot_buffer_appends:
  "currentBotUtterance (handle_events (map BotLlmText chunks) s) = currentBotUtterance s @ concat chunks"
  by (induction chunks arbitrary: s) (simp_all add: handleBotLlmText_def store_actions)

lemma user_stop_idem: "handleUserStoppedSpeaking (handleUserStoppedSpeaking s) = handleUserStoppedSpeaking s"
  by (simp add: handleUserStoppedSpeaking_def Let_def truthy_def trim_def store_actions)

lemma bot_stop_idem: "handleBotStoppedSpeaking (handleBotStoppedSpeaking s) = handleBotStoppedSpeaking s"
  by (simp add: handleBotStoppedSpeaking_def Let_def truthy_def trim_def store_actions)

lemma bot_start_idem: "handleBotStartedSpeaking (handleBotStartedSpeaking s) = handleBotStartedSpeaking s"
  by (simp add: handleBotStartedSpeaking_def store_actions)
lemma user_start_idem:
  "handleUserStartedSpeaking (handleUserStartedSpeaking s) = handleUserStartedSpeaking s"
  by (simp add: handleUserStartedSpeaking_def store_actions)

text \<open>
  C6. From any state of the stores, the events bot started, text "Hi", text " there",
  bot stopped add exactly one record to the conversation history, of role assistant
  and content "Hi there" (and its copy to the Ginger store), and leave the bot buffer
  empty. After a start, the buffer is the concatenation of the chunks received.
\<close>

theorem bot_chunks_round_trip:
  "conversationMessages
     (handle_events [BotStartedSpeaking, BotLlmText (js_string_of ''Hi''),
                     BotLlmText (js_string_of '' there''), BotStoppedSpeaking] s)
     = conversationMessages s @
         [\<lparr>role = assistant, content = js_string_of ''Hi there'',
           isVoiceTranscript = None, lens = first_lens (activeLenses s)\<rparr>]
   \<and> gingerMessages
     (handle_events [BotStartedSpeaking, BotLlmText (js_string_of ''Hi''),
                     BotLlmText (js_string_of '' there''), BotStoppedSpeaking] s)
     = gingerMessages s @
         [\<lparr>role = assistant, content = js_string_of ''Hi there'',
           isVoiceTranscript = None, lens = None\<rparr>]
   \<and> currentBotUtterance
     (handle_events [BotStartedSpeaking, BotLlmText (js_string_of ''Hi''),
                     BotLlmText (js_string_of '' there''), BotStoppedSpeaking] s) = []
   \<and> currentBotUtterance
     (handle_events (BotStartedSpeaking # map BotLlmText chunks) s) = concat chunks"
proof -
  have "currentBotUtterance (handle_events (BotStartedSpeaking # map BotLlmText chunks) s)
          = concat chunks"
    by (simp add: bot_buffer_appends handleBotStartedSpeaking_def store_actions)
  then show ?thesis
    by (simp add: handleBotStartedSpeaking_def handleBotLlmText_def handleBotStoppedSpeaking_def
        store_actions Let_def trim_hi_there hi_there_append hi_there_truthy)
qed

text \<open>
  C7. When the user stops speaking with a user buffer that is empty or all white space,
  no record is added to a history; the same holds for the bot buffer when the bot stops.
\<close>

theorem whitespace_utterance_discarded:
  "((\<forall>c\<in>set (currentUserUtterance s). is_white_space c) \<longrightarrow>
      conversationMessages (handleUserStoppedSpeaking s) = conversationMessages s
      \<and> gingerMessages (handleUserStoppedSpeaking s) = gingerMessages s)
   \<and> ((\<forall>c\<in>set (currentBotUtterance s). is_white_space c) \<longrightarrow>
      conversationMessages (handleBotStoppedSpeaking s) = conversationMessages s
      \<and> gingerMessages (handleBotStoppedSpeaking s) = gingerMessages s)"
  by (simp add: user_stop_history bot_stop_history)

theorem whitespace_utterance_discarded_witness:
  "currentUserUtterance whitespace_stores = [0x20, 0x20]
   \<and> currentBotUtterance whitespace_stores = [0x9, 0xA]
   \<and> is_white_space 0x20 \<and> is_white_space 0x9 \<and> is_white_space 0xA
   \<and> conversationMessages (handleUserStoppedSpeaking whitespace_stores) = []
   \<and> conversationMessages (handleBotStoppedSpeaking whitespace_stores) = []
   \<and> gingerMessages (handleBotStoppedSpeaking whitespace_stores) = []"
  using whitespace_utterance_discarded [of whitespace_stores]
  by (simp add: whitespace_stores_def is_white_space_def)

text \<open>
  C8. The counterexample: with the stores at rest (voice state idle, buffers empty), the
  handler of a user stop changes the state: the voice state becomes \<open>processing\<close>.
\<close>

theorem stray_user_stop_counterexample:
  "voiceState idle_stores = idle
   \<and> currentUserUtterance idle_stores = []
   \<and> handleUserStoppedSpeaking idle_stores \<noteq> idle_stores
   \<and> voiceState (handleUserStoppedSpeaking idle_stores) = processing"
  by (simp add: idle_stores_def handleUserStoppedSpeaking_def Let_def truthy_def trim_def
      store_actions)

text \<open>
  C8, as the code has it. A user stop on an empty or white-space buffer adds no record
  to a history and leaves the buffers empty, but it clears \<open>isUserSpeaking\<close> and moves
  the voice state to \<open>processing\<close>. A second stop or start right after the first changes
  nothing more, so a repeated event adds no second record.
\<close>

theorem stray_user_stop:
  assumes "\<forall>c\<in>set (currentUserUtterance s). is_white_space c"
  shows "handleUserStoppedSpeaking s =
           s\<lparr>isUserSpeaking := False, currentUserUtterance := [], voiceState := processing\<rparr>
       \<and> conversationMessages (handleUserStoppedSpeaking s) = conversationMessages s
       \<and> gingerMessages (handleUserStoppedSpeaking s) = gingerMessages s
       \<and> handleUserStoppedSpeaking (handleUserStoppedSpeaking s') = handleUserStoppedSpeaking s'
       \<and> handleBotStoppedSpeaking (handleBotStoppedSpeaking s') = handleBotStoppedSpeaking s'
       \<and> handleUserStartedSpeaking (handleUserStartedSpeaking s') = handleUserStartedSpeaking s'
       \<and> handleBotStartedSpeaking (handleBotStartedSpeaking s') = handleBotStartedSpeaking s'"
proof -
  have "handleUserStoppedSpeaking s =
           s\<lparr>isUserSpeaking := False, currentUserUtterance := [], voiceState := processing\<rparr>"
    using assms
    by (simp add: handleUserStoppedSpeaking_def Let_def truthy_def trim_empty_iff store_actions)
  then show ?thesis
    by (simp add: user_stop_idem bot_stop_idem user_start_idem bot_start_idem)
qed

theorem stray_user_stop_witness:
  "currentUserUtterance idle_stores = []
   \<and> handleUserStoppedSpeaking idle_stores = idle_stores\<lparr>voiceState := processing\<rparr>
   \<and> conversationMessages (handleUserStoppedSpeaking idle_stores) = []"
  using stray_user_stop [of idle_stores]
  by (simp add: idle_stores_def)

end
